theory Spec2Isabelle
  imports Complex_Main "HOL-Library.Sublist"
begin

section \<open>JavaScript values\<close>

text \<open>
  The relay of \<^verbatim>\<open>server.js\<close> handles untyped JSON: request bodies parsed by
  \<^verbatim>\<open>express.json()\<close>, provider responses parsed by axios, and the text of the moderation
  model parsed by \<^verbatim>\<open>JSON.parse\<close>. A value is one of JavaScript's JSON-reachable values.
  Strings are lists of code units below 256; numbers are rationals (the handlers only test
  a number for being zero and pass it on). An object is the list of its own properties.
\<close>

datatype jval =
    JUndefined
  | JNull
  | JBool bool
  | JNum rat
  | JStr string
  | JArr "jval list"
  | JObj "(string \<times> jval) list"

text \<open>\<^verbatim>\<open>!!v\<close>: the values that are not falsy.\<close>

fun truthy :: "jval \<Rightarrow> bool" where
  "truthy JUndefined = False"
| "truthy JNull = False"
| "truthy (JBool b) = b"
| "truthy (JNum n) = (n \<noteq> 0)"
| "truthy (JStr s) = (s \<noteq> [])"
| "truthy (JArr xs) = True"
| "truthy (JObj kvs) = True"

text \<open>\<^verbatim>\<open>a || b\<close>\<close>

definition js_or :: "jval \<Rightarrow> jval \<Rightarrow> jval" where
  "js_or a b = (if truthy a then a else b)"

text \<open>\<^verbatim>\<open>typeof v === 'object'\<close> (which \<^verbatim>\<open>null\<close> satisfies too) and
  \<^verbatim>\<open>typeof v === 'string'\<close>.\<close>

fun typeof_object :: "jval \<Rightarrow> bool" where
  "typeof_object JNull = True"
| "typeof_object (JArr xs) = True"
| "typeof_object (JObj kvs) = True"
| "typeof_object v = False"

fun typeof_string :: "jval \<Rightarrow> bool" where
  "typeof_string (JStr s) = True"
| "typeof_string v = False"

fun is_nullish :: "jval \<Rightarrow> bool" where
  "is_nullish JUndefined = True"
| "is_nullish JNull = True"
| "is_nullish v = False"

text \<open>
  \<^verbatim>\<open>v?.k\<close> for the property names the relay reads (\<^verbatim>\<open>content\<close>, \<^verbatim>\<open>role\<close>,
  \<^verbatim>\<open>status\<close>, \<^verbatim>\<open>parts\<close>, ...): none of them is a built-in property of a string, an array,
  a number or a boolean, so only an object can hold one. On \<^verbatim>\<open>null\<close> and
  \<^verbatim>\<open>undefined\<close> the optional chain yields \<^verbatim>\<open>undefined\<close>; the plain access \<^verbatim>\<open>v.k\<close>
  throws a \<^verbatim>\<open>TypeError\<close> there, which each function that makes one tests with
  \<open>is_nullish\<close> first.
\<close>

fun get_prop :: "jval \<Rightarrow> string \<Rightarrow> jval" where
  "get_prop (JObj kvs) k = (case map_of kvs k of Some v \<Rightarrow> v | None \<Rightarrow> JUndefined)"
| "get_prop v k = JUndefined"

text \<open>\<^verbatim>\<open>v?.[0]\<close>: the first element of an array, the first code unit of a string, the
  property \<^verbatim>\<open>"0"\<close> of an object.\<close>

fun index0 :: "jval \<Rightarrow> jval" where
  "index0 (JArr []) = JUndefined"
| "index0 (JArr (x # xs)) = x"
| "index0 (JStr []) = JUndefined"
| "index0 (JStr (c # cs)) = JStr [c]"
| "index0 (JObj kvs) = get_prop (JObj kvs) ''0''"
| "index0 v = JUndefined"

text \<open>The string held by a value that passed \<^verbatim>\<open>typeof v === 'string'\<close>.\<close>

fun str_of :: "jval \<Rightarrow> string" where
  "str_of (JStr s) = s"
| "str_of v = []"

text \<open>
  \<^verbatim>\<open>String.prototype.trim\<close> strips white space and line terminators from both ends:
  among the code units below 256 these are TAB, LF, VT, FF, CR, SP and NBSP.
\<close>

definition is_js_space :: "char \<Rightarrow> bool" where
  "is_js_space c =
     (c \<in> set [CHR 0x09, CHR 0x0A, CHR 0x0B, CHR 0x0C, CHR 0x0D, CHR 0x20, CHR 0xA0])"

definition trim :: "string \<Rightarrow> string" where
  "trim s = rev (dropWhile is_js_space (rev (dropWhile is_js_space s)))"


section \<open>The format translator: \<^verbatim>\<open>formatMessagesForGemini\<close>\<close>

text \<open>
  The result \<^verbatim>\<open>{ contents, systemInstruction }\<close>. The loop of the source mutates both
  while it walks the messages, so the record is also the loop's state.
\<close>

record gemini_request =
  contents :: "jval list"
  systemInstruction :: jval

text \<open>\<^verbatim>\<open>{ text }\<close>\<close>

definition text_part :: "string \<Rightarrow> jval" where
  "text_part t = JObj [(''text'', JStr t)]"

text \<open>\<^verbatim>\<open>systemInstruction.parts.push(p)\<close> on the object \<^verbatim>\<open>{ parts: [...] }\<close>, the only
  shape the translator ever gives \<^verbatim>\<open>systemInstruction\<close>.\<close>

fun push_part :: "jval \<Rightarrow> jval \<Rightarrow> jval" where
  "push_part (JObj [(k, JArr ps)]) p = JObj [(k, JArr (ps @ [p]))]"
| "push_part v p = v"

text \<open>The body of the \<^verbatim>\<open>forEach\<close> callback, on one message.\<close>

definition format_message :: "jval \<Rightarrow> gemini_request \<Rightarrow> gemini_request" where
  "format_message msg st =
     (if \<not> truthy msg then st
      else if \<not> typeof_object msg then st
      else if \<not> typeof_string (get_prop msg ''content'') then st
      else
        let text = trim (str_of (get_prop msg ''content'')) in
        if text = [] then st
        else if get_prop msg ''role'' = JStr ''system'' then
          (if \<not> truthy (systemInstruction st)
           then st\<lparr>systemInstruction := JObj [(''parts'', JArr [text_part text])]\<rparr>
           else st\<lparr>systemInstruction := push_part (systemInstruction st) (text_part text)\<rparr>)
        else
          let role = (if get_prop msg ''role'' = JStr ''assistant''
                         \<or> get_prop msg ''role'' = JStr ''model''
                      then ''model'' else ''user'')
          in st\<lparr>contents := contents st @
                  [JObj [(''role'', JStr role), (''parts'', JArr [text_part text])]]\<rparr>)"

text \<open>
  \<^verbatim>\<open>formatMessagesForGemini(messages = [])\<close>: the default applies to \<^verbatim>\<open>undefined\<close>; any
  other value that is not an array gives \<^verbatim>\<open>{ contents: [] }\<close>, whose
  \<^verbatim>\<open>systemInstruction\<close> reads as \<^verbatim>\<open>undefined\<close>.
\<close>

fun formatMessagesForGemini :: "jval \<Rightarrow> gemini_request" where
  "formatMessagesForGemini (JArr messages) =
     foldl (\<lambda>st msg. format_message msg st)
       \<lparr>contents = [], systemInstruction = JNull\<rparr> messages"
| "formatMessagesForGemini JUndefined = \<lparr>contents = [], systemInstruction = JNull\<rparr>"
| "formatMessagesForGemini v = \<lparr>contents = [], systemInstruction = JUndefined\<rparr>"


subsection \<open>What the translator is expected to compute\<close>

text \<open>
  A turn the translator reads: an object whose \<^verbatim>\<open>content\<close> is a string. Its text is the
  trimmed content; a turn whose text is empty is ignored.
\<close>

definition is_turn :: "jval \<Rightarrow> bool" where
  "is_turn msg = (case msg of
     JObj kvs \<Rightarrow> (case get_prop msg ''content'' of JStr s \<Rightarrow> trim s \<noteq> [] | _ \<Rightarrow> False)
   | _ \<Rightarrow> False)"

definition turn_text :: "jval \<Rightarrow> string" where
  "turn_text msg = trim (str_of (get_prop msg ''content''))"

definition is_system_turn :: "jval \<Rightarrow> bool" where
  "is_system_turn msg = (is_turn msg \<and> get_prop msg ''role'' = JStr ''system'')"

definition is_history_turn :: "jval \<Rightarrow> bool" where
  "is_history_turn msg = (is_turn msg \<and> get_prop msg ''role'' \<noteq> JStr ''system'')"

text \<open>The texts of the system turns, in the order of the conversation.\<close>

definition system_texts :: "jval list \<Rightarrow> string list" where
  "system_texts messages = map turn_text (filter is_system_turn messages)"

text \<open>The instruction block holding the given texts, one part each; none when there is
  no text.\<close>

definition instruction_block :: "string list \<Rightarrow> jval" where
  "instruction_block ts =
     (if ts = [] then JNull else JObj [(''parts'', JArr (map text_part ts))])"

text \<open>The provider's role label of a turn that is not a system turn.\<close>

definition gemini_role :: "jval \<Rightarrow> string" where
  "gemini_role msg =
     (if get_prop msg ''role'' \<in> set [JStr ''assistant'', JStr ''model'']
      then ''model'' else ''user'')"

definition history_entry :: "jval \<Rightarrow> jval" where
  "history_entry msg =
     JObj [(''role'', JStr (gemini_role msg)), (''parts'', JArr [text_part (turn_text msg)])]"

text \<open>The raw (untrimmed) content of every turn tagged \<^verbatim>\<open>system\<close>, as the specification's
  reading of the merge joins it.\<close>

definition system_contents :: "jval list \<Rightarrow> string list" where
  "system_contents messages =
     map (\<lambda>m. str_of (get_prop m ''content''))
       (filter (\<lambda>m. get_prop m ''role'' = JStr ''system'') messages)"

definition system_turn :: "string \<Rightarrow> jval" where
  "system_turn c = JObj [(''role'', JStr ''system''), (''content'', JStr c)]"


section \<open>Upstream calls and replies\<close>

text \<open>
  The process environment. A variable is a string or is unset; \<^verbatim>\<open>!KEY\<close> holds for an
  unset variable and for the empty string.
\<close>

record env =
  OPENAI_API_KEY :: "string option"
  ELEVENLABS_API_KEY :: "string option"
  ELEVENLABS_VOICE_ID :: "string option"
  GEMINI_API_KEY :: "string option"

fun is_set :: "string option \<Rightarrow> bool" where
  "is_set None = False"
| "is_set (Some s) = (s \<noteq> [])"

fun env_str :: "string option \<Rightarrow> string" where
  "env_str None = ''undefined''"
| "env_str (Some s) = s"

text \<open>
  \<^verbatim>\<open>req.body\<close> as \<^verbatim>\<open>express.json()\<close> leaves it: an object, given by its own
  properties (an array body has none of the properties the handlers read).
\<close>

type_synonym request_body = "(string \<times> jval) list"

definition body_prop :: "request_body \<Rightarrow> string \<Rightarrow> jval" where
  "body_prop body k = get_prop (JObj body) k"

text \<open>One outbound HTTP POST through axios: the URL, the headers and the JSON payload.\<close>

datatype upstream_call = Post (call_url: string) (call_headers: "(string \<times> string) list")
  (call_payload: jval)

text \<open>
  What a \<^verbatim>\<open>catch\<close> clause can receive: an axios error, with the provider's status and
  body when the provider answered; a \<^verbatim>\<open>TypeError\<close> of the engine; or an \<^verbatim>\<open>Error\<close>
  thrown by the relay itself. The last argument is \<^verbatim>\<open>error.message\<close>.
\<close>

datatype 'd js_error =
    AxiosError "(nat \<times> 'd) option" string
  | TypeError string
  | PlainError string

text \<open>The \<^verbatim>\<open>TypeError\<close> of reading property \<open>k\<close> of \<^verbatim>\<open>null\<close> or
  \<^verbatim>\<open>undefined\<close>, with the message V8 gives it.\<close>

definition cannot_read :: "jval \<Rightarrow> string \<Rightarrow> 'd js_error" where
  "cannot_read v k =
     TypeError (''Cannot read properties of ''
       @ (if v = JNull then ''null'' else ''undefined'')
       @ '' (reading '' @ [CHR 0x27] @ k @ [CHR 0x27] @ '')'')"

text \<open>\<^verbatim>\<open>error.response?.status || 500\<close>\<close>

fun error_status :: "'d js_error \<Rightarrow> nat" where
  "error_status (AxiosError (Some (st, d)) m) = (if st = 0 then 500 else st)"
| "error_status e = 500"

fun error_message :: "'d js_error \<Rightarrow> string" where
  "error_message (AxiosError r m) = m"
| "error_message (TypeError m) = m"
| "error_message (PlainError m) = m"

text \<open>\<^verbatim>\<open>error.response?.data || error.message\<close>\<close>

fun error_details :: "jval js_error \<Rightarrow> jval" where
  "error_details (AxiosError (Some (st, d)) m) = js_or d (JStr m)"
| "error_details e = JStr (error_message e)"

text \<open>
  The providers, as the relay sees them: a call either throws or resolves to the
  response's \<^verbatim>\<open>data\<close>. JSON endpoints resolve to a value, the chat-completion stream to
  the chunks it delivers (and whether it then fails instead of ending), the
  text-to-speech endpoint to a byte buffer. The body of an error response has the type
  the request asked for: with \<^verbatim>\<open>responseType: 'stream'\<close> it is again a stream.
\<close>

type_synonym upstream = "upstream_call \<Rightarrow> jval js_error + jval"

record upstream_stream =
  chunks :: "string list"
  fails :: bool

type_synonym stream_upstream =
  "upstream_call \<Rightarrow> upstream_stream js_error + upstream_stream"

type_synonym binary_upstream = "upstream_call \<Rightarrow> (string option) js_error + string"

text \<open>
  What the handler answers: \<^verbatim>\<open>res.status(n).json(v)\<close>, \<^verbatim>\<open>res.status(n).send(data)\<close>,
  an event stream (the chunks written before \<^verbatim>\<open>res.end()\<close>), or an
  \<^verbatim>\<open>audio/mpeg\<close> body. \<open>Uncaught\<close> is the case where an exception leaves the handler
  before it has written anything: the handler itself sends no reply.
\<close>

datatype http_response =
    Json nat jval
  | Send nat string
  | EventStream "string list"
  | Audio string
  | Uncaught

text \<open>The result of handling one request: the reply, and the upstream calls made on the
  way, in order.\<close>

record outcome =
  reply :: http_response
  upstream_calls :: "upstream_call list"


section \<open>The safety pre-filter: \<^verbatim>\<open>evaluateAndOptimizeImagePrompt\<close>\<close>

definition moderation_instruction :: string where
  \<open>moderation_instruction =
     ''You are Graxybot's safety filter and prompt polisher. Analyse the user's request for disallowed content (nudity, sexual content, minors, gore, hate, violence, self-harm, explicit body descriptions, sexual contexts, fetish content, or any other unsafe or policy-breaking material).''
     @ [CHR 0x0A] @
     ''Return a JSON object with this exact structure:''
     @ [CHR 0x0A] @
     ''{"status":"safe"|"unsafe","optimized_prompt":"string","response":"string"}''
     @ [CHR 0x0A] @
     ''- If the prompt is unsafe, set status to "unsafe", leave optimized_prompt empty, and craft a short, laid-back, all-lowercase, lightly funny response in the "response" field explaining (without repeating the explicit request) why you're refusing, in Graxybot's informal tone. Keep it under 25 words.''
     @ [CHR 0x0A] @
     ''- If the prompt is allowed, set status to "safe", produce an upgraded concise art-generation prompt in optimized_prompt (max 40 words, descriptive, no first-person language), and set response to an empty string.''
     @ [CHR 0x0A] @
     ''Respond with JSON only.''\<close>

definition moderation_call :: "string \<Rightarrow> string \<Rightarrow> upstream_call" where
  "moderation_call prompt apiKey =
     Post ''https://api.openai.com/v1/chat/completions''
       [(''Content-Type'', ''application/json''), (''Authorization'', ''Bearer '' @ apiKey)]
       (JObj [(''model'', JStr ''gpt-4.1-mini''),
              (''messages'', JArr
                 [JObj [(''role'', JStr ''system''), (''content'', JStr moderation_instruction)],
                  JObj [(''role'', JStr ''user''), (''content'', JStr prompt)]]),
              (''temperature'', JNum (3 / 10)),
              (''max_tokens'', JNum 300)])"

text \<open>
  \<^verbatim>\<open>JSON.parse\<close> is the platform's: the pre-filter takes it as the parameter \<open>parse\<close>,
  from the value it is applied to (which it first converts to a string) to the parsed
  value, or \<open>None\<close> where it throws a \<^verbatim>\<open>SyntaxError\<close>.
\<close>

type_synonym json_parse = "jval \<Rightarrow> jval option"

text \<open>\<^verbatim>\<open>moderationResponse.data?.choices?.[0]?.message?.content\<close>\<close>

definition moderation_content :: "jval \<Rightarrow> jval" where
  "moderation_content data =
     get_prop (get_prop (index0 (get_prop data ''choices'')) ''message'') ''content''"

definition evaluateAndOptimizeImagePrompt ::
  "json_parse \<Rightarrow> upstream \<Rightarrow> string \<Rightarrow> string \<Rightarrow> jval js_error + jval" where
  "evaluateAndOptimizeImagePrompt parse post prompt apiKey =
     (case post (moderation_call prompt apiKey) of
        Inl e \<Rightarrow> Inl e
      | Inr data \<Rightarrow>
          let content = moderation_content data in
          if \<not> truthy content then Inl (PlainError ''Invalid moderation response'')
          else (case parse content of
             None \<Rightarrow> Inl (PlainError ''Failed to parse moderation response JSON'')
           | Some parsed \<Rightarrow>
               if \<not> truthy parsed then
                 Inl (PlainError ''Moderation response missing required fields'')
               else if \<not> typeof_object parsed then
                 Inl (PlainError ''Moderation response missing required fields'')
               else if \<not> truthy (get_prop parsed ''status'') then
                 Inl (PlainError ''Moderation response missing required fields'')
               else Inr parsed))"


section \<open>The image endpoint: \<^verbatim>\<open>POST /gemini/image\<close>\<close>

text \<open>
  The moderation stage of the handler (the inner \<^verbatim>\<open>try\<close>): it either answers the
  client itself or hands the prompt to send on to the generation stage. Either way it
  reports the upstream calls it made.
\<close>

datatype moderation_stage = Refuse http_response | Proceed jval

definition moderate_prompt ::
  "env \<Rightarrow> json_parse \<Rightarrow> upstream \<Rightarrow> string \<Rightarrow> moderation_stage \<times> upstream_call list" where
  "moderate_prompt e parse post prompt =
     (if is_set (OPENAI_API_KEY e) then
        (case evaluateAndOptimizeImagePrompt parse post prompt (env_str (OPENAI_API_KEY e)) of
           Inr moderationResult \<Rightarrow>
             if get_prop moderationResult ''status'' \<noteq> JStr ''safe'' then
               (Refuse (Json 400
                  (JObj [(''error'', JStr ''unsafe_prompt''),
                         (''message'', js_or (get_prop moderationResult ''response'')
                                          (JStr ''whoa, let's keep it PG.''))])),
                [moderation_call prompt (env_str (OPENAI_API_KEY e))])
             else
               (Proceed (js_or (get_prop moderationResult ''optimized_prompt'') (JStr prompt)),
                [moderation_call prompt (env_str (OPENAI_API_KEY e))])
         | Inl modErr \<Rightarrow>
             (Proceed (JStr prompt), [moderation_call prompt (env_str (OPENAI_API_KEY e))]))
      else (Proceed (JStr prompt), []))"

text \<open>The request sent to the image model: the reference image, when the body has one,
  then the prompt.\<close>

definition image_call :: "string \<Rightarrow> request_body \<Rightarrow> jval \<Rightarrow> upstream_call" where
  "image_call apiKey body finalPrompt =
     (let referenceImage = body_prop body ''referenceImage'';
          parts =
            (if truthy referenceImage \<and> truthy (get_prop referenceImage ''data'') then
               [JObj [(''inlineData'',
                  JObj [(''data'', get_prop referenceImage ''data''),
                        (''mimeType'', js_or (get_prop referenceImage ''mimeType'')
                                          (JStr ''image/png''))])]]
             else [])
            @ [JObj [(''text'', finalPrompt)]]
      in Post
           (''https://generativelanguage.googleapis.com/v1beta/models/gemini-2.0-flash-preview-image-generation:generateContent?key=''
              @ apiKey)
           [(''Content-Type'', ''application/json'')]
           (JObj [(''contents'', JArr [JObj [(''role'', JStr ''user''), (''parts'', JArr parts)]]),
                  (''generationConfig'',
                     JObj [(''responseModalities'', JArr [JStr ''IMAGE'', JStr ''TEXT''])])]))"

text \<open>\<^verbatim>\<open>part.inlineData && part.inlineData.data\<close>, on a part that is not
  \<^verbatim>\<open>null\<close>.\<close>

definition has_inline_data :: "jval \<Rightarrow> bool" where
  "has_inline_data part =
     (truthy (get_prop part ''inlineData'')
      \<and> truthy (get_prop (get_prop part ''inlineData'') ''data''))"

text \<open>
  \<^verbatim>\<open>responseParts.find(...)\<close>: the first part with inline data, if any. Reading
  \<^verbatim>\<open>part.inlineData\<close> on a \<^verbatim>\<open>null\<close> entry throws, and so does calling
  \<^verbatim>\<open>find\<close> on a value that is not an array.
\<close>

fun find_inline :: "jval list \<Rightarrow> jval js_error + jval option" where
  "find_inline [] = Inr None"
| "find_inline (part # rest) =
     (if is_nullish part then Inl (cannot_read part ''inlineData'')
      else if has_inline_data part then Inr (Some part)
      else find_inline rest)"

fun find_inline_part :: "jval \<Rightarrow> jval js_error + jval option" where
  "find_inline_part (JArr responseParts) = find_inline responseParts"
| "find_inline_part v = Inl (TypeError ''responseParts.find is not a function'')"

text \<open>\<^verbatim>\<open>candidates[0]?.content?.parts || []\<close> with
  \<^verbatim>\<open>candidates = data?.candidates || []\<close>\<close>

definition first_candidate_parts :: "jval \<Rightarrow> jval" where
  "first_candidate_parts data =
     (let candidates = js_or (get_prop data ''candidates'') (JArr [])
      in js_or (get_prop (get_prop (index0 candidates) ''content'') ''parts'') (JArr []))"

definition image_failure :: "jval js_error \<Rightarrow> http_response" where
  "image_failure error =
     Json (error_status error)
       (JObj [(''error'', JStr ''Failed to communicate with Gemini image API''),
              (''details'', error_details error)])"

text \<open>The generation stage: the call to the image model and the reading of its
  answer.\<close>

definition generate_image :: "upstream \<Rightarrow> upstream_call \<Rightarrow> http_response" where
  "generate_image post call =
     (case post call of
        Inl error \<Rightarrow> image_failure error
      | Inr data \<Rightarrow>
          (case find_inline_part (first_candidate_parts data) of
             Inl error \<Rightarrow> image_failure error
           | Inr None \<Rightarrow>
               Json 502 (JObj [(''error'', JStr ''Gemini did not return image data.''),
                               (''details'', data)])
           | Inr (Some inlinePart) \<Rightarrow>
               Json 200
                 (JObj [(''image'', get_prop (get_prop inlinePart ''inlineData'') ''data''),
                        (''mimeType'',
                           js_or (get_prop (get_prop inlinePart ''inlineData'') ''mimeType'')
                             (JStr ''image/png''))])))"

text \<open>\<^verbatim>\<open>typeof req.body.prompt === 'string' ? req.body.prompt.trim() : ''\<close>\<close>

definition request_prompt :: "request_body \<Rightarrow> string" where
  "request_prompt body =
     (if typeof_string (body_prop body ''prompt'')
      then trim (str_of (body_prop body ''prompt'')) else [])"

definition gemini_image :: "env \<Rightarrow> json_parse \<Rightarrow> upstream \<Rightarrow> request_body \<Rightarrow> outcome" where
  "gemini_image e parse post body =
     (if \<not> is_set (GEMINI_API_KEY e) then
        \<lparr>reply = Json 500
           (JObj [(''error'', JStr ''Server configuration error: Gemini API key is missing.'')]),
         upstream_calls = []\<rparr>
      else if request_prompt body = [] then
        \<lparr>reply = Json 400 (JObj [(''error'', JStr ''No prompt provided for image generation.'')]),
         upstream_calls = []\<rparr>
      else
        (case moderate_prompt e parse post (request_prompt body) of
           (Refuse response, calls) \<Rightarrow> \<lparr>reply = response, upstream_calls = calls\<rparr>
         | (Proceed finalPrompt, calls) \<Rightarrow>
             \<lparr>reply = generate_image post
                 (image_call (env_str (GEMINI_API_KEY e)) body finalPrompt),
              upstream_calls =
                 calls @ [image_call (env_str (GEMINI_API_KEY e)) body finalPrompt]\<rparr>))"


section \<open>The alternate chat endpoint: \<^verbatim>\<open>POST /gemini/chat\<close>\<close>

definition chat_call :: "string \<Rightarrow> gemini_request \<Rightarrow> upstream_call" where
  "chat_call apiKey req =
     Post
       (''https://generativelanguage.googleapis.com/v1beta/models/gemini-2.0-flash:generateContent?key=''
          @ apiKey)
       []
       (JObj ((''contents'', JArr (contents req))
              # (if truthy (systemInstruction req)
                 then [(''systemInstruction'', systemInstruction req)] else [])))"

text \<open>The callback of \<^verbatim>\<open>parts.map\<close>: the part's \<^verbatim>\<open>text\<close> when it is a string, the
  empty string otherwise.\<close>

definition part_text :: "jval \<Rightarrow> string" where
  "part_text part =
     (if typeof_string (get_prop part ''text'') then str_of (get_prop part ''text'') else [])"

text \<open>
  \<^verbatim>\<open>parts.map(...).join('')\<close>. Reading \<^verbatim>\<open>part.text\<close> on a \<^verbatim>\<open>null\<close> entry throws,
  and so does calling \<^verbatim>\<open>map\<close> on a value that is not an array.
\<close>

fun parts_text :: "jval list \<Rightarrow> jval js_error + string" where
  "parts_text [] = Inr []"
| "parts_text (part # rest) =
     (if is_nullish part then Inl (cannot_read part ''text'')
      else (case parts_text rest of
              Inl error \<Rightarrow> Inl error
            | Inr t \<Rightarrow> Inr (part_text part @ t)))"

fun candidate_text :: "jval \<Rightarrow> jval js_error + string" where
  "candidate_text (JArr parts) = parts_text parts"
| "candidate_text v = Inl (TypeError ''parts.map is not a function'')"

text \<open>\<^verbatim>\<open>{ choices: [{ delta: { content: text } }] }\<close>\<close>

definition eventPayload :: "string \<Rightarrow> jval" where
  "eventPayload t =
     JObj [(''choices'', JArr [JObj [(''delta'', JObj [(''content'', JStr t)])]])]"

definition chat_failure :: "jval js_error \<Rightarrow> http_response" where
  "chat_failure error =
     Json (error_status error)
       (JObj [(''error'', JStr ''Failed to communicate with Gemini chat API''),
              (''details'', error_details error)])"

text \<open>
  \<^verbatim>\<open>JSON.stringify\<close> is the platform's and is the parameter \<open>stringify\<close>. Nothing is
  written to the client before the two \<^verbatim>\<open>res.write\<close> calls, so in the
  \<^verbatim>\<open>catch\<close> clause \<^verbatim>\<open>res.headersSent\<close> is false and the failure is answered as JSON.
\<close>

type_synonym json_stringify = "jval \<Rightarrow> string"

definition synthesize_stream :: "json_stringify \<Rightarrow> string \<Rightarrow> http_response" where
  "synthesize_stream stringify t =
     EventStream [''data: '' @ stringify (eventPayload t) @ [CHR 0x0A, CHR 0x0A],
                  ''data: [DONE]'' @ [CHR 0x0A, CHR 0x0A]]"

definition relay_chat :: "json_stringify \<Rightarrow> upstream \<Rightarrow> upstream_call \<Rightarrow> http_response" where
  "relay_chat stringify post call =
     (case post call of
        Inl error \<Rightarrow> chat_failure error
      | Inr data \<Rightarrow>
          (case candidate_text (first_candidate_parts data) of
             Inl error \<Rightarrow> chat_failure error
           | Inr t \<Rightarrow> synthesize_stream stringify t))"

text \<open>\<^verbatim>\<open>!messages || !Array.isArray(messages) || messages.length === 0\<close>\<close>

fun no_messages :: "jval \<Rightarrow> bool" where
  "no_messages (JArr []) = True"
| "no_messages (JArr (m # ms)) = False"
| "no_messages v = True"

definition gemini_chat :: "env \<Rightarrow> json_stringify \<Rightarrow> upstream \<Rightarrow> request_body \<Rightarrow> outcome" where
  "gemini_chat e stringify post body =
     (if \<not> is_set (GEMINI_API_KEY e) then
        \<lparr>reply = Json 500
           (JObj [(''error'', JStr ''Server configuration error: Gemini API key is missing.'')]),
         upstream_calls = []\<rparr>
      else if no_messages (body_prop body ''messages'') then
        \<lparr>reply = Json 400 (JObj [(''error'', JStr ''No messages provided for Gemini chat.'')]),
         upstream_calls = []\<rparr>
      else if contents (formatMessagesForGemini (body_prop body ''messages'')) = [] then
        \<lparr>reply = Json 400 (JObj [(''error'', JStr ''No valid messages to send to Gemini.'')]),
         upstream_calls = []\<rparr>
      else
        (let call = chat_call (env_str (GEMINI_API_KEY e))
                      (formatMessagesForGemini (body_prop body ''messages''))
         in \<lparr>reply = relay_chat stringify post call, upstream_calls = [call]\<rparr>))"


section \<open>The primary chat endpoint: \<^verbatim>\<open>POST /openai/chat\<close>\<close>

definition openai_call :: "string \<Rightarrow> jval \<Rightarrow> jval \<Rightarrow> upstream_call" where
  "openai_call apiKey model messages =
     Post ''https://api.openai.com/v1/chat/completions''
       [(''Content-Type'', ''application/json''), (''Authorization'', ''Bearer '' @ apiKey)]
       (JObj [(''model'', model), (''messages'', messages), (''stream'', JBool True)])"

text \<open>
  \<^verbatim>\<open>openaiResponse.data.pipe(res)\<close>: the chunks reach the client as they arrive. When
  the stream fails, the handler ends the response, or answers 500 if no chunk has
  committed the headers yet.
\<close>

definition pipe_stream :: "upstream_stream \<Rightarrow> http_response" where
  "pipe_stream s =
     (if fails s \<and> chunks s = [] then Send 500 ''Error streaming response from OpenAI.''
      else EventStream (chunks s))"

text \<open>
  The \<^verbatim>\<open>catch\<close> clause; nothing has been written yet, so \<^verbatim>\<open>res.headersSent\<close> is
  false. When the provider answered with an error status, \<^verbatim>\<open>error.response.data\<close> is the
  response stream, an object and so truthy: it becomes \<^verbatim>\<open>details\<close>, and
  \<^verbatim>\<open>res.json\<close> throws on it (a stream is a circular structure), out of the handler.
  Otherwise \<^verbatim>\<open>details\<close> is the error's message.
\<close>

fun openai_failure :: "upstream_stream js_error \<Rightarrow> http_response" where
  "openai_failure (AxiosError (Some (st, response_stream)) m) = Uncaught"
| "openai_failure error =
     Json (error_status error)
       (JObj [(''error'', JStr ''Failed to communicate with OpenAI API''),
              (''details'', JStr (error_message error))])"

definition openai_chat :: "env \<Rightarrow> stream_upstream \<Rightarrow> request_body \<Rightarrow> outcome" where
  "openai_chat e post body =
     (let model = js_or (body_prop body ''model'') (JStr ''gpt-5-mini'') in
      if \<not> is_set (OPENAI_API_KEY e) then
        \<lparr>reply = Json 500
           (JObj [(''error'', JStr ''Server configuration error: OpenAI API key is missing.'')]),
         upstream_calls = []\<rparr>
      else if \<not> truthy (body_prop body ''messages'') then
        \<lparr>reply = Json 400
           (JObj [(''error'',
                   JStr ''No messages provided in the request body for OpenAI chat.'')]),
         upstream_calls = []\<rparr>
      else
        (let call = openai_call (env_str (OPENAI_API_KEY e)) model (body_prop body ''messages'')
         in \<lparr>reply =
                (case post call of
                   Inl error \<Rightarrow> openai_failure error
                 | Inr s \<Rightarrow> pipe_stream s),
             upstream_calls = [call]\<rparr>))"


section \<open>The text-to-speech endpoint: \<^verbatim>\<open>POST /elevenlabs-tts\<close>\<close>

definition tts_call :: "string \<Rightarrow> string \<Rightarrow> jval \<Rightarrow> upstream_call" where
  "tts_call voice apiKey textToSpeak =
     Post (''https://api.elevenlabs.io/v1/text-to-speech/'' @ voice)
       [(''Accept'', ''audio/mpeg''), (''Content-Type'', ''application/json''),
        (''xi-api-key'', apiKey)]
       (JObj [(''text'', textToSpeak),
              (''model_id'', JStr ''eleven_multilingual_v2''),
              (''voice_settings'',
                 JObj [(''stability'', JNum (3 / 4)), (''similarity_boost'', JNum (3 / 4))])])"

text \<open>
  The \<^verbatim>\<open>catch\<close> clause. The provider's error body is a byte buffer;
  \<open>decode\<close> stands for its \<^verbatim>\<open>toString('utf8')\<close>. Reading \<^verbatim>\<open>detail\<close> of a parsed
  \<^verbatim>\<open>null\<close> throws inside the inner \<^verbatim>\<open>try\<close>, which falls back to the raw body
  as a parse failure does.
\<close>

definition tts_failure ::
  "json_parse \<Rightarrow> (string \<Rightarrow> string) \<Rightarrow> (string option) js_error \<Rightarrow> http_response" where
  "tts_failure parse decode error =
     (case error of
        AxiosError (Some (st, Some buffer)) m \<Rightarrow>
          (case parse (JStr (decode buffer)) of
             None \<Rightarrow> Send (error_status error) buffer
           | Some errorDetails \<Rightarrow>
               if is_nullish errorDetails then Send (error_status error) buffer
               else Json (error_status error)
                 (JObj [(''error'', JStr ''Failed to communicate with ElevenLabs API''),
                        (''details'',
                           js_or (js_or (get_prop errorDetails ''detail'')
                                    (get_prop errorDetails ''message''))
                             (JStr ''Unknown error''))]))
      | _ \<Rightarrow>
          Json (error_status error)
            (JObj [(''error'', JStr ''Failed to communicate with ElevenLabs API''),
                   (''details'', JStr (error_message error))]))"

definition elevenlabs_tts ::
  "env \<Rightarrow> json_parse \<Rightarrow> (string \<Rightarrow> string) \<Rightarrow> binary_upstream \<Rightarrow> request_body \<Rightarrow> outcome" where
  "elevenlabs_tts e parse decode post body =
     (let voice = (if is_set (ELEVENLABS_VOICE_ID e) then env_str (ELEVENLABS_VOICE_ID e)
                   else ''21m00Tcm4TlvDq8ikWAM'') in
      if \<not> is_set (ELEVENLABS_API_KEY e) then
        \<lparr>reply = Json 500
           (JObj [(''error'',
                   JStr ''Server configuration error: ElevenLabs API key is missing.'')]),
         upstream_calls = []\<rparr>
      else if \<not> truthy (body_prop body ''text'') then
        \<lparr>reply = Json 400 (JObj [(''error'', JStr ''No text provided for ElevenLabs TTS.'')]),
         upstream_calls = []\<rparr>
      else
        (let call = tts_call voice (env_str (ELEVENLABS_API_KEY e)) (body_prop body ''text'')
         in \<lparr>reply =
                (case post call of
                   Inl error \<Rightarrow> tts_failure parse decode error
                 | Inr audio \<Rightarrow> Audio audio),
             upstream_calls = [call]\<rparr>))"


section \<open>Notions of the specification\<close>

text \<open>
  The pre-filter hard-fails: the moderation call itself fails, its response has no
  content, the content does not parse as JSON, or the parsed value has no \<^verbatim>\<open>status\<close>
  (which includes a parsed value that is no object at all).
\<close>

definition moderation_hard_fails :: "json_parse \<Rightarrow> upstream \<Rightarrow> string \<Rightarrow> string \<Rightarrow> bool" where
  "moderation_hard_fails parse post prompt apiKey =
     (case post (moderation_call prompt apiKey) of
        Inl error \<Rightarrow> True
      | Inr data \<Rightarrow>
          (if truthy (moderation_content data)
           then (case parse (moderation_content data) of
                   None \<Rightarrow> True
                 | Some parsed \<Rightarrow> (if truthy (get_prop parsed ''status'') then False else True))
           else True))"

text \<open>The prompt a call to the image model carries: the \<^verbatim>\<open>text\<close> of the last part of
  its single turn.\<close>

definition prompt_sent :: "upstream_call \<Rightarrow> jval" where
  "prompt_sent call =
     (case get_prop (index0 (get_prop (call_payload call) ''contents'')) ''parts'' of
        JArr parts \<Rightarrow> (if parts = [] then JUndefined else get_prop (last parts) ''text'')
      | _ \<Rightarrow> JUndefined)"

text \<open>The answer of the image endpoint to a list of response parts none of which is
  \<^verbatim>\<open>null\<close>: the first part with inline data, or the upstream-contract error carrying the
  provider's payload.\<close>

definition image_answer :: "jval \<Rightarrow> jval list \<Rightarrow> http_response" where
  "image_answer data parts =
     (case find has_inline_data parts of
        None \<Rightarrow>
          Json 502 (JObj [(''error'', JStr ''Gemini did not return image data.''),
                          (''details'', data)])
      | Some part \<Rightarrow>
          Json 200
            (JObj [(''image'', get_prop (get_prop part ''inlineData'') ''data''),
                   (''mimeType'',
                      js_or (get_prop (get_prop part ''inlineData'') ''mimeType'')
                        (JStr ''image/png''))]))"


section \<open>Example environments, providers and platform functions\<close>

definition example_env :: env where
  "example_env =
     \<lparr>OPENAI_API_KEY = Some ''sk-test'', ELEVENLABS_API_KEY = Some ''xi-test'',
      ELEVENLABS_VOICE_ID = None, GEMINI_API_KEY = Some ''g-test''\<rparr>"

definition no_moderation_env :: env where
  "no_moderation_env =
     \<lparr>OPENAI_API_KEY = None, ELEVENLABS_API_KEY = None,
      ELEVENLABS_VOICE_ID = None, GEMINI_API_KEY = Some ''g-test''\<rparr>"

definition empty_env :: env where
  "empty_env =
     \<lparr>OPENAI_API_KEY = None, ELEVENLABS_API_KEY = None,
      ELEVENLABS_VOICE_ID = None, GEMINI_API_KEY = None\<rparr>"

text \<open>A chat completion whose first choice carries the given text.\<close>

definition completion :: "string \<Rightarrow> jval" where
  "completion t =
     JObj [(''choices'', JArr
        [JObj [(''message'', JObj [(''role'', JStr ''assistant''), (''content'', JStr t)])]])]"

text \<open>A response of the image or chat model whose first candidate has the given parts.\<close>

definition candidate :: "jval list \<Rightarrow> jval" where
  "candidate parts =
     JObj [(''candidates'', JArr [JObj [(''content'', JObj [(''parts'', JArr parts)])]])]"

text \<open>Providers that answer the moderation call with \<open>m\<close> and any other call with
  \<open>g\<close>.\<close>

definition providers :: "jval js_error + jval \<Rightarrow> jval js_error + jval \<Rightarrow> upstream" where
  "providers m g =
     (\<lambda>call. if call_url call = ''https://api.openai.com/v1/chat/completions'' then m else g)"

text \<open>\<^verbatim>\<open>JSON.parse\<close> and \<^verbatim>\<open>JSON.stringify\<close>, restricted to the one text and the one value
  an example needs.\<close>

definition parse_known :: "string \<Rightarrow> jval \<Rightarrow> json_parse" where
  "parse_known t v = (\<lambda>x. if x = JStr t then Some v else None)"

definition stringify_known :: "jval \<Rightarrow> string \<Rightarrow> json_stringify" where
  "stringify_known v t = (\<lambda>x. if x = v then t else [])"

definition verdict :: "string \<Rightarrow> string \<Rightarrow> string \<Rightarrow> jval" where
  "verdict st opt resp =
     JObj [(''status'', JStr st), (''optimized_prompt'', JStr opt), (''response'', JStr resp)]"

text \<open>Texts the moderation model may answer with.\<close>

definition refusal_json :: string where
  \<open>refusal_json =
     ''{"status":"unsafe","optimized_prompt":"","response":"nah, keeping it chill today"}''\<close>

definition echo_json :: string where
  \<open>echo_json =
     ''{"status":"unsafe","optimized_prompt":"","response":"no way, not gonna draw gore"}''\<close>

definition polished_json :: string where
  \<open>polished_json =
     ''{"status":"safe","optimized_prompt":"a cat in a spacesuit, detailed, photorealistic","response":""}''\<close>

definition unsure_json :: string where
  \<open>unsure_json = ''{"status":"maybe","optimized_prompt":"","response":""}''\<close>

text \<open>A provider that cannot be reached.\<close>

definition unreachable :: "'d js_error + 'a" where
  "unreachable = Inl (AxiosError None ''connect ECONNREFUSED'')"

definition hello_json :: string where
  \<open>hello_json = ''{"choices":[{"delta":{"content":"Hello"}}]}''\<close>

definition user_turn :: "string \<Rightarrow> jval" where
  "user_turn c = JObj [(''role'', JStr ''user''), (''content'', JStr c)]"

text \<open>A response part with inline image data.\<close>

definition inline_png :: "string \<Rightarrow> jval" where
  "inline_png d =
     JObj [(''inlineData'', JObj [(''mimeType'', JStr ''image/png''), (''data'', JStr d)])]"


section \<open>Properties of the format translator\<close>

lemma format_message_skip:
  "\<not> is_turn msg \<Longrightarrow> format_message msg st = st"
  by (cases msg; cases "get_prop msg ''content''")
     (auto simp: format_message_def is_turn_def Let_def)

lemma format_message_system:
  "is_system_turn msg \<Longrightarrow>
   format_message msg \<lparr>contents = cs, systemInstruction = instruction_block ts\<rparr> =
     \<lparr>contents = cs, systemInstruction = instruction_block (ts @ [turn_text msg])\<rparr>"
  by (cases msg; cases "get_prop msg ''content''")
     (auto simp: format_message_def is_system_turn_def is_turn_def turn_text_def
        instruction_block_def Let_def)

lemma format_message_history:
  "is_history_turn msg \<Longrightarrow>
   format_message msg \<lparr>contents = cs, systemInstruction = si\<rparr> =
     \<lparr>contents = cs @ [history_entry msg], systemInstruction = si\<rparr>"
  by (cases msg; cases "get_prop msg ''content''")
     (auto simp: format_message_def is_history_turn_def is_turn_def turn_text_def
        history_entry_def gemini_role_def Let_def)

lemma format_fold:
  "foldl (\<lambda>st msg. format_message msg st)
     \<lparr>contents = cs, systemInstruction = instruction_block ts\<rparr> messages =
   \<lparr>contents = cs @ map history_entry (filter is_history_turn messages),
    systemInstruction = instruction_block (ts @ system_texts messages)\<rparr>"
proof (induction messages arbitrary: cs ts)
  case Nil
  show ?case by (simp add: system_texts_def)
next
  case (Cons m ms)
  consider (skip) "\<not> is_turn m" | (sys) "is_system_turn m" | (hist) "is_history_turn m"
    unfolding is_system_turn_def is_history_turn_def by blast
  then show ?case
  proof cases
    case skip
    then have "\<not> is_system_turn m" "\<not> is_history_turn m"
      by (simp_all add: is_system_turn_def is_history_turn_def)
    with skip Cons.IH show ?thesis
      by (simp add: format_message_skip system_texts_def)
  next
    case sys
    then have "\<not> is_history_turn m"
      by (simp add: is_system_turn_def is_history_turn_def)
    with sys Cons.IH [of cs "ts @ [turn_text m]"] show ?thesis
      by (simp add: format_message_system system_texts_def)
  next
    case hist
    then have "\<not> is_system_turn m"
      by (simp add: is_system_turn_def is_history_turn_def)
    with hist Cons.IH [of "cs @ [history_entry m]" ts] show ?thesis
      by (simp add: format_message_history system_texts_def)
  qed
qed

lemma format_array:
  "formatMessagesForGemini (JArr messages) =
   \<lparr>contents = map history_entry (filter is_history_turn messages),
    systemInstruction = instruction_block (system_texts messages)\<rparr>"
  using format_fold [of "[]" "[]" messages] by (simp add: instruction_block_def)


subsection \<open>System turns\<close>

text \<open>
  Claim C1, as the code has it. For every list of messages the translator gives exactly
  one instruction block (none when no system turn has text). The block is not one joined
  text: it holds one part for each system turn whose trimmed content is not empty, in the
  order of the conversation, and the text of each part is the trimmed content of its
  turn.
\<close>

theorem system_turns_instruction_parts:
  "systemInstruction (formatMessagesForGemini (JArr messages)) =
     instruction_block (system_texts messages)"
  by (simp add: format_array del: formatMessagesForGemini.simps)

text \<open>
  Claim C1 as stated fails. Two system turns \<^verbatim>\<open>"a "\<close> and \<^verbatim>\<open>"b"\<close> give a block of
  two parts \<^verbatim>\<open>"a"\<close> and \<^verbatim>\<open>"b"\<close>, not a block whose single text is the join
  \<^verbatim>\<open>"a b"\<close> of their content.
\<close>

theorem merged_text_counterexample:
  "systemInstruction (formatMessagesForGemini (JArr [system_turn ''a '', system_turn ''b'']))
     = JObj [(''parts'', JArr [text_part ''a'', text_part ''b''])]
   \<and> concat (system_contents [system_turn ''a '', system_turn ''b'']) = ''a b''
   \<and> systemInstruction (formatMessagesForGemini (JArr [system_turn ''a '', system_turn ''b'']))
     \<noteq> JObj [(''parts'', JArr [text_part ''a b''])]"
  by (simp add: format_message_def system_turn_def system_contents_def trim_def
        is_js_space_def text_part_def Let_def)


subsection \<open>Dropped and kept turns\<close>

text \<open>
  Claim C2, as the code has it. The translated history has one entry for each message
  that is an object with a string content, not empty once trimmed, and a role other than
  \<^verbatim>\<open>system\<close>, in order; every other message contributes nothing. A role that is not
  \<^verbatim>\<open>assistant\<close> or \<^verbatim>\<open>model\<close>, recognised or not, is sent as \<^verbatim>\<open>user\<close>: such a
  turn is kept, not dropped.
\<close>

theorem history_turns_kept:
  "contents (formatMessagesForGemini (JArr messages)) =
     map history_entry (filter is_history_turn messages)"
  by (simp add: format_array del: formatMessagesForGemini.simps)

text \<open>
  Claim C2 as stated fails. A turn with the unrecognised role \<^verbatim>\<open>tool\<close> is not dropped:
  it becomes an entry with the role \<^verbatim>\<open>user\<close>.
\<close>

theorem unknown_role_counterexample:
  "contents (formatMessagesForGemini
      (JArr [JObj [(''role'', JStr ''tool''), (''content'', JStr ''hi'')]]))
     = [JObj [(''role'', JStr ''user''), (''parts'', JArr [JObj [(''text'', JStr ''hi'')]])]]
   \<and> contents (formatMessagesForGemini
      (JArr [JObj [(''role'', JStr ''tool''), (''content'', JStr ''hi'')]])) \<noteq> []"
  by (simp add: format_message_def trim_def is_js_space_def text_part_def Let_def)


section \<open>Properties of the image endpoint\<close>

lemma truthy_prop_object:
  "truthy (get_prop v k) \<Longrightarrow> typeof_object v \<and> truthy v"
  by (cases v) auto

lemma evaluate_fails_iff:
  "(\<exists>err. evaluateAndOptimizeImagePrompt parse post prompt k = Inl err)
   \<longleftrightarrow> moderation_hard_fails parse post prompt k"
  by (auto simp: evaluateAndOptimizeImagePrompt_def moderation_hard_fails_def Let_def
        split: option.splits sum.splits dest: truthy_prop_object)

lemma prompt_sent_image_call: "prompt_sent (image_call k body fp) = fp"
  by (simp add: prompt_sent_def image_call_def Let_def)

lemma find_inline_no_null:
  "\<forall>p \<in> set parts. \<not> is_nullish p \<Longrightarrow> find_inline parts = Inr (find has_inline_data parts)"
  by (induction parts) auto

lemma gemini_image_stages:
  "is_set (GEMINI_API_KEY e) \<Longrightarrow> request_prompt body \<noteq> [] \<Longrightarrow>
   gemini_image e parse post body =
     (case moderate_prompt e parse post (request_prompt body) of
        (Refuse response, calls) \<Rightarrow> \<lparr>reply = response, upstream_calls = calls\<rparr>
      | (Proceed finalPrompt, calls) \<Rightarrow>
          \<lparr>reply = generate_image post
              (image_call (env_str (GEMINI_API_KEY e)) body finalPrompt),
           upstream_calls =
              calls @ [image_call (env_str (GEMINI_API_KEY e)) body finalPrompt]\<rparr>)"
  by (simp add: gemini_image_def)

lemma moderate_verdict:
  "is_set (OPENAI_API_KEY e) \<Longrightarrow>
   evaluateAndOptimizeImagePrompt parse post prompt (env_str (OPENAI_API_KEY e)) = Inr v \<Longrightarrow>
   moderate_prompt e parse post prompt =
     (if get_prop v ''status'' \<noteq> JStr ''safe'' then
        Refuse (Json 400
          (JObj [(''error'', JStr ''unsafe_prompt''),
                 (''message'', js_or (get_prop v ''response'')
                                  (JStr ''whoa, let's keep it PG.''))]))
      else Proceed (js_or (get_prop v ''optimized_prompt'') (JStr prompt)),
      [moderation_call prompt (env_str (OPENAI_API_KEY e))])"
  by (simp add: moderate_prompt_def)

lemma moderate_unavailable:
  "\<not> is_set (OPENAI_API_KEY e) \<or>
     moderation_hard_fails parse post prompt (env_str (OPENAI_API_KEY e)) \<Longrightarrow>
   moderate_prompt e parse post prompt =
     (Proceed (JStr prompt),
      if is_set (OPENAI_API_KEY e) then [moderation_call prompt (env_str (OPENAI_API_KEY e))]
      else [])"
  using evaluate_fails_iff [of parse post prompt "env_str (OPENAI_API_KEY e)"]
  by (auto simp: moderate_prompt_def split: sum.splits)

lemma moderate_skipped:
  "moderate_prompt no_moderation_env parse post p = (Proceed (JStr p), [])"
  by (simp add: moderate_prompt_def no_moderation_env_def)

lemma providers_image_call: "providers m g (image_call k body fp) = g"
  by (simp add: providers_def image_call_def Let_def)

lemma request_prompt_dragon: "request_prompt [(''prompt'', JStr '' a dragon '')] = ''a dragon''"
  by (simp add: request_prompt_def body_prop_def trim_def is_js_space_def)

lemma request_prompt_plain:
  "request_prompt [(''prompt'', JStr p)] = trim p"
  by (simp add: request_prompt_def body_prop_def)

lemma request_prompt_cat:
  "request_prompt [(''prompt'', JStr ''a cat astronaut'')] = ''a cat astronaut''"
  by (simp add: request_prompt_def body_prop_def trim_def is_js_space_def)

lemma evaluate_example:
  "t \<noteq> [] \<Longrightarrow> truthy (get_prop v ''status'') \<Longrightarrow>
   evaluateAndOptimizeImagePrompt (parse_known t v) (providers (Inr (completion t)) g) p k
     = Inr v"
  by (auto simp: evaluateAndOptimizeImagePrompt_def parse_known_def providers_def
      completion_def moderation_call_def moderation_content_def Let_def
      dest: truthy_prop_object)

lemma hard_fails_unparsed:
  "t \<noteq> [] \<Longrightarrow> t \<noteq> t' \<Longrightarrow>
   moderation_hard_fails (parse_known t' v) (providers (Inr (completion t)) g) p k"
  by (simp add: moderation_hard_fails_def providers_def moderation_call_def
      moderation_content_def completion_def parse_known_def)

lemma generate_image_inline:
  "generate_image (providers m (Inr (candidate [inline_png d]))) (image_call k body fp) =
     (if d = [] then Json 502 (JObj [(''error'', JStr ''Gemini did not return image data.''),
                          (''details'', candidate [inline_png d])])
      else Json 200 (JObj [(''image'', JStr d), (''mimeType'', JStr ''image/png'')]))"
  by (simp add: generate_image_def providers_def image_call_def Let_def candidate_def
      first_candidate_parts_def js_or_def inline_png_def has_inline_data_def)


subsection \<open>Unsafe verdicts\<close>

text \<open>
  Claim C3, as the code has it. When the pre-filter returns a verdict whose status is
  \<^verbatim>\<open>unsafe\<close>, the endpoint answers 400 with the error \<^verbatim>\<open>unsafe_prompt\<close> and makes no call
  to the image model. The message is the verdict's \<^verbatim>\<open>response\<close> when that is truthy and
  the fixed text \<^verbatim>\<open>whoa, let's keep it PG.\<close> otherwise. Nothing is promised about the
  prompt not occurring in the message.
\<close>

theorem unsafe_verdict_refused:
  assumes "is_set (GEMINI_API_KEY e)" and "request_prompt body \<noteq> []"
    and "is_set (OPENAI_API_KEY e)"
    and "evaluateAndOptimizeImagePrompt parse post (request_prompt body)
           (env_str (OPENAI_API_KEY e)) = Inr v"
    and "get_prop v ''status'' = JStr ''unsafe''"
  shows "gemini_image e parse post body =
     \<lparr>reply = Json 400
        (JObj [(''error'', JStr ''unsafe_prompt''),
               (''message'',
                  if truthy (get_prop v ''response'') then get_prop v ''response''
                  else JStr ''whoa, let's keep it PG.'')]),
      upstream_calls = [moderation_call (request_prompt body) (env_str (OPENAI_API_KEY e))]\<rparr>"
  using assms by (simp add: gemini_image_stages moderate_verdict js_or_def)

text \<open>
  Claim C3 at a concrete request: the model refuses \<^verbatim>\<open>" a dragon "\<close> and the client
  receives the model's refusal text.
\<close>

theorem unsafe_verdict_refused_witness:
  "gemini_image example_env
     (parse_known refusal_json (verdict ''unsafe'' [] ''nah, keeping it chill today''))
     (providers (Inr (completion refusal_json)) unreachable)
     [(''prompt'', JStr '' a dragon '')] =
   \<lparr>reply = Json 400
      (JObj [(''error'', JStr ''unsafe_prompt''),
             (''message'', JStr ''nah, keeping it chill today'')]),
    upstream_calls = [moderation_call ''a dragon'' ''sk-test'']\<rparr>"
proof -
  let ?v = "verdict ''unsafe'' [] ''nah, keeping it chill today''"
  have 1: "is_set (GEMINI_API_KEY example_env)" "is_set (OPENAI_API_KEY example_env)"
    by (simp_all add: example_env_def)
  have 2: "request_prompt [(''prompt'', JStr '' a dragon '')] \<noteq> []"
    by (simp add: request_prompt_dragon)
  have 3: "evaluateAndOptimizeImagePrompt (parse_known refusal_json ?v)
     (providers (Inr (completion refusal_json)) unreachable)
     (request_prompt [(''prompt'', JStr '' a dragon '')])
     (env_str (OPENAI_API_KEY example_env)) = Inr ?v"
    by (rule evaluate_example) (simp_all add: refusal_json_def verdict_def)
  have 4: "get_prop ?v ''status'' = JStr ''unsafe''"
    by (simp add: verdict_def)
  show ?thesis
    using unsafe_verdict_refused [OF 1(1) 2 1(2) 3 4]
    by (simp add: request_prompt_dragon example_env_def verdict_def)
qed

text \<open>
  Claim C3 as stated fails: nothing keeps the prompt out of the message. When the model's
  refusal text repeats the prompt \<^verbatim>\<open>draw gore\<close>, the message sent to the client contains
  it.
\<close>

theorem refusal_echo_counterexample:
  "reply (gemini_image example_env
     (parse_known echo_json (verdict ''unsafe'' [] ''no way, not gonna draw gore''))
     (providers (Inr (completion echo_json)) unreachable)
     [(''prompt'', JStr ''draw gore'')]) =
   Json 400
      (JObj [(''error'', JStr ''unsafe_prompt''),
             (''message'', JStr ''no way, not gonna draw gore'')])
   \<and> request_prompt [(''prompt'', JStr ''draw gore'')] = ''draw gore''
   \<and> sublist ''draw gore'' ''no way, not gonna draw gore''"
proof -
  let ?v = "verdict ''unsafe'' [] ''no way, not gonna draw gore''"
  let ?body = "[(''prompt'', JStr ''draw gore'')]"
  have 1: "is_set (GEMINI_API_KEY example_env)" "is_set (OPENAI_API_KEY example_env)"
    by (simp_all add: example_env_def)
  have 2: "request_prompt ?body = ''draw gore''"
    by (simp add: request_prompt_plain trim_def is_js_space_def)
  have 3: "evaluateAndOptimizeImagePrompt (parse_known echo_json ?v)
     (providers (Inr (completion echo_json)) unreachable)
     (request_prompt ?body) (env_str (OPENAI_API_KEY example_env)) = Inr ?v"
    by (rule evaluate_example) (simp_all add: echo_json_def verdict_def)
  have 4: "sublist ''draw gore'' (''no way, not gonna '' @ ''draw gore'' @ [])"
    by (rule sublist_appendI)
  have 5: "request_prompt ?body \<noteq> []"
    by (simp add: 2)
  have "reply (gemini_image example_env (parse_known echo_json ?v)
     (providers (Inr (completion echo_json)) unreachable) ?body) =
   Json 400
      (JObj [(''error'', JStr ''unsafe_prompt''),
             (''message'', JStr ''no way, not gonna draw gore'')])"
    by (simp add: gemini_image_stages [OF 1(1) 5] moderate_verdict [OF 1(2) 3])
       (simp add: verdict_def js_or_def)
  with 2 4 show ?thesis by simp
qed


subsection \<open>The moderation gate\<close>

text \<open>
  Claim C10. The gate lets a verdict pass only when its status is the string
  \<^verbatim>\<open>safe\<close>. For a verdict with any other status, of the taxonomy or not, the endpoint
  answers 400 with the error \<^verbatim>\<open>unsafe_prompt\<close>; the only upstream call of the request is
  the moderation call, so the prompt is neither passed on nor handled as a moderation
  failure.
\<close>

theorem non_safe_verdict_rejected:
  assumes "is_set (GEMINI_API_KEY e)" and "request_prompt body \<noteq> []"
    and "is_set (OPENAI_API_KEY e)"
    and "evaluateAndOptimizeImagePrompt parse post (request_prompt body)
           (env_str (OPENAI_API_KEY e)) = Inr v"
    and "get_prop v ''status'' \<noteq> JStr ''safe''"
  shows "gemini_image e parse post body =
     \<lparr>reply = Json 400
        (JObj [(''error'', JStr ''unsafe_prompt''),
               (''message'', js_or (get_prop v ''response'') (JStr ''whoa, let's keep it PG.''))]),
      upstream_calls = [moderation_call (request_prompt body) (env_str (OPENAI_API_KEY e))]\<rparr>"
  using assms by (simp add: gemini_image_stages moderate_verdict)

text \<open>
  Claim C10 at a concrete request: the status \<^verbatim>\<open>maybe\<close> is outside the taxonomy, the
  verdict has no refusal text, and the request is refused with the fallback message.
\<close>

theorem non_safe_verdict_rejected_witness:
  "gemini_image example_env
     (parse_known unsure_json (verdict ''maybe'' [] []))
     (providers (Inr (completion unsure_json)) unreachable)
     [(''prompt'', JStr '' a dragon '')] =
   \<lparr>reply = Json 400
      (JObj [(''error'', JStr ''unsafe_prompt''),
             (''message'', JStr ''whoa, let's keep it PG.'')]),
    upstream_calls = [moderation_call ''a dragon'' ''sk-test'']\<rparr>"
proof -
  let ?v = "verdict ''maybe'' [] []"
  have 1: "is_set (GEMINI_API_KEY example_env)" "is_set (OPENAI_API_KEY example_env)"
    by (simp_all add: example_env_def)
  have 2: "request_prompt [(''prompt'', JStr '' a dragon '')] \<noteq> []"
    by (simp add: request_prompt_dragon)
  have 3: "evaluateAndOptimizeImagePrompt (parse_known unsure_json ?v)
     (providers (Inr (completion unsure_json)) unreachable)
     (request_prompt [(''prompt'', JStr '' a dragon '')])
     (env_str (OPENAI_API_KEY example_env)) = Inr ?v"
    by (rule evaluate_example) (simp_all add: unsure_json_def verdict_def)
  have 4: "get_prop ?v ''status'' \<noteq> JStr ''safe''"
    by (simp add: verdict_def)
  show ?thesis
    using non_safe_verdict_rejected [OF 1(1) 2 1(2) 3 4]
    by (simp add: request_prompt_dragon example_env_def verdict_def js_or_def)
qed


subsection \<open>Safe verdicts\<close>

text \<open>
  Claim C4. When the pre-filter returns a verdict whose status is \<^verbatim>\<open>safe\<close>, the
  endpoint calls the image model after the moderation call, and the prompt that call
  carries is the verdict's optimized prompt; when the optimized prompt is empty or absent
  (falsy), it is the prompt of the request, as the handler read it from the body.
\<close>

theorem safe_verdict_prompt_sent:
  assumes "is_set (GEMINI_API_KEY e)" and "request_prompt body \<noteq> []"
    and "is_set (OPENAI_API_KEY e)"
    and "evaluateAndOptimizeImagePrompt parse post (request_prompt body)
           (env_str (OPENAI_API_KEY e)) = Inr v"
    and "get_prop v ''status'' = JStr ''safe''"
    and "finalPrompt = (if truthy (get_prop v ''optimized_prompt'')
                        then get_prop v ''optimized_prompt''
                        else JStr (request_prompt body))"
  shows "upstream_calls (gemini_image e parse post body) =
           [moderation_call (request_prompt body) (env_str (OPENAI_API_KEY e)),
            image_call (env_str (GEMINI_API_KEY e)) body finalPrompt]
         \<and> prompt_sent (image_call (env_str (GEMINI_API_KEY e)) body finalPrompt) = finalPrompt"
  using assms
  by (simp add: gemini_image_stages moderate_verdict prompt_sent_image_call js_or_def)

text \<open>
  Claim C4 at the scenario of the specification: the prompt \<^verbatim>\<open>a cat astronaut\<close> is
  replaced by the optimized prompt of the verdict.
\<close>

theorem safe_verdict_prompt_sent_witness:
  "upstream_calls (gemini_image example_env
      (parse_known polished_json
         (verdict ''safe'' ''a cat in a spacesuit, detailed, photorealistic'' []))
      (providers (Inr (completion polished_json)) unreachable)
      [(''prompt'', JStr ''a cat astronaut'')]) =
     [moderation_call ''a cat astronaut'' ''sk-test'',
      image_call ''g-test'' [(''prompt'', JStr ''a cat astronaut'')]
        (JStr ''a cat in a spacesuit, detailed, photorealistic'')]
   \<and> prompt_sent (image_call ''g-test'' [(''prompt'', JStr ''a cat astronaut'')]
        (JStr ''a cat in a spacesuit, detailed, photorealistic''))
      = JStr ''a cat in a spacesuit, detailed, photorealistic''"
proof -
  let ?v = "verdict ''safe'' ''a cat in a spacesuit, detailed, photorealistic'' []"
  let ?body = "[(''prompt'', JStr ''a cat astronaut'')]"
  have 1: "is_set (GEMINI_API_KEY example_env)" "is_set (OPENAI_API_KEY example_env)"
    by (simp_all add: example_env_def)
  have 2: "request_prompt ?body \<noteq> []"
    by (simp add: request_prompt_cat)
  have 3: "evaluateAndOptimizeImagePrompt (parse_known polished_json ?v)
     (providers (Inr (completion polished_json)) unreachable)
     (request_prompt ?body) (env_str (OPENAI_API_KEY example_env)) = Inr ?v"
    by (rule evaluate_example) (simp_all add: polished_json_def verdict_def)
  have 4: "get_prop ?v ''status'' = JStr ''safe''"
    by (simp add: verdict_def)
  have 5: "JStr ''a cat in a spacesuit, detailed, photorealistic'' =
     (if truthy (get_prop ?v ''optimized_prompt'') then get_prop ?v ''optimized_prompt''
      else JStr (request_prompt ?body))"
    by (simp add: verdict_def)
  show ?thesis
    using safe_verdict_prompt_sent [OF 1(1) 2 1(2) 3 4 5]
    by (simp add: request_prompt_cat example_env_def)
qed


subsection \<open>Moderation unavailable\<close>

text \<open>
  Claim C5. When the moderation credential is not set, or the pre-filter hard-fails (the
  call fails, the response has no content, the content is not JSON, or the parsed value
  has no status), the endpoint goes on to the image model with the prompt of the request
  unchanged. Its reply is the reply of the generation stage for that prompt: the
  moderation failure itself never fails the request.
\<close>

theorem moderation_unavailable_fail_open:
  assumes "is_set (GEMINI_API_KEY e)" and "request_prompt body \<noteq> []"
    and "\<not> is_set (OPENAI_API_KEY e) \<or>
         moderation_hard_fails parse post (request_prompt body) (env_str (OPENAI_API_KEY e))"
    and "call = image_call (env_str (GEMINI_API_KEY e)) body (JStr (request_prompt body))"
  shows "gemini_image e parse post body =
           \<lparr>reply = generate_image post call,
            upstream_calls =
              (if is_set (OPENAI_API_KEY e)
               then [moderation_call (request_prompt body) (env_str (OPENAI_API_KEY e))]
               else []) @ [call]\<rparr>
         \<and> prompt_sent call = JStr (request_prompt body)"
  using assms(1,2,4) moderate_unavailable [OF assms(3)]
  by (simp add: gemini_image_stages prompt_sent_image_call)

text \<open>
  Claim C5 at a concrete request: the moderation model answers with text that is not
  JSON, and the image is generated from the prompt of the request.
\<close>

theorem moderation_unavailable_fail_open_witness:
  "gemini_image example_env
      (parse_known polished_json
         (verdict ''safe'' ''a cat in a spacesuit, detailed, photorealistic'' []))
      (providers (Inr (completion ''sorry, what?'')) (Inr (candidate [inline_png ''iVBORw0KGgo=''])))
      [(''prompt'', JStr ''a cat astronaut'')] =
     \<lparr>reply = Json 200 (JObj [(''image'', JStr ''iVBORw0KGgo=''), (''mimeType'', JStr ''image/png'')]),
      upstream_calls =
        [moderation_call ''a cat astronaut'' ''sk-test'',
         image_call ''g-test'' [(''prompt'', JStr ''a cat astronaut'')] (JStr ''a cat astronaut'')]\<rparr>
   \<and> prompt_sent
        (image_call ''g-test'' [(''prompt'', JStr ''a cat astronaut'')] (JStr ''a cat astronaut''))
      = JStr ''a cat astronaut''"
proof -
  let ?v = "verdict ''safe'' ''a cat in a spacesuit, detailed, photorealistic'' []"
  let ?body = "[(''prompt'', JStr ''a cat astronaut'')]"
  let ?post = "providers (Inr (completion ''sorry, what?''))
                 (Inr (candidate [inline_png ''iVBORw0KGgo='']))"
  have 1: "is_set (GEMINI_API_KEY example_env)"
    by (simp add: example_env_def)
  have 2: "request_prompt ?body \<noteq> []"
    by (simp add: request_prompt_cat)
  have "moderation_hard_fails (parse_known polished_json ?v) ?post
          (request_prompt ?body) (env_str (OPENAI_API_KEY example_env))"
    by (rule hard_fails_unparsed) (simp_all add: polished_json_def)
  then have 3: "\<not> is_set (OPENAI_API_KEY example_env) \<or>
     moderation_hard_fails (parse_known polished_json ?v) ?post
          (request_prompt ?body) (env_str (OPENAI_API_KEY example_env))"
    by simp
  show ?thesis
    using moderation_unavailable_fail_open [OF 1 2 3 refl]
    by (simp add: request_prompt_cat example_env_def generate_image_inline)
qed


subsection \<open>Reading the image model's answer\<close>

text \<open>
  Claim C7, as the code has it. When the image model answers and the parts of its first
  candidate are absent or form an array without \<^verbatim>\<open>null\<close> entries, the endpoint answers
  502 with the provider's payload as \<^verbatim>\<open>details\<close> if no part has inline data, and
  otherwise with the data of the first such part as \<^verbatim>\<open>{ image, mimeType }\<close>, the type
  defaulting to \<^verbatim>\<open>image/png\<close>.
\<close>

theorem image_parts_answer:
  assumes "is_set (GEMINI_API_KEY e)" and "request_prompt body \<noteq> []"
    and "moderate_prompt e parse post (request_prompt body) = (Proceed finalPrompt, calls)"
    and "post (image_call (env_str (GEMINI_API_KEY e)) body finalPrompt) = Inr data"
    and "first_candidate_parts data = JArr parts"
    and "\<forall>p \<in> set parts. \<not> is_nullish p"
  shows "reply (gemini_image e parse post body) = image_answer data parts"
  using assms(1-5) find_inline_no_null [OF assms(6)]
  by (simp add: gemini_image_stages generate_image_def image_answer_def split: option.splits)

text \<open>
  Claim C7 at a concrete request: the image model answers with text only, and the
  endpoint answers 502 with the payload it received.
\<close>

theorem image_parts_answer_witness:
  "reply (gemini_image no_moderation_env (parse_known [] JNull)
      (providers unreachable (Inr (candidate [text_part ''cannot draw that''])))
      [(''prompt'', JStr ''a cat astronaut'')]) =
   Json 502 (JObj [(''error'', JStr ''Gemini did not return image data.''),
                   (''details'', candidate [text_part ''cannot draw that''])])"
proof -
  let ?body = "[(''prompt'', JStr ''a cat astronaut'')]"
  let ?data = "candidate [text_part ''cannot draw that'']"
  let ?post = "providers unreachable (Inr ?data)"
  have 1: "is_set (GEMINI_API_KEY no_moderation_env)"
    by (simp add: no_moderation_env_def)
  have 2: "request_prompt ?body \<noteq> []"
    by (simp add: request_prompt_cat)
  have 3: "moderate_prompt no_moderation_env (parse_known [] JNull) ?post (request_prompt ?body)
      = (Proceed (JStr (request_prompt ?body)), [])"
    by (rule moderate_skipped)
  have 4: "?post (image_call (env_str (GEMINI_API_KEY no_moderation_env)) ?body
      (JStr (request_prompt ?body))) = Inr ?data"
    by (rule providers_image_call)
  have 5: "first_candidate_parts ?data = JArr [text_part ''cannot draw that'']"
    by (simp add: first_candidate_parts_def candidate_def js_or_def)
  have 6: "\<forall>p \<in> set [text_part ''cannot draw that'']. \<not> is_nullish p"
    by (simp add: text_part_def)
  show ?thesis
    using image_parts_answer [OF 1 2 3 4 5 6]
    by (simp add: image_answer_def has_inline_data_def text_part_def)
qed

text \<open>
  Claim C7 as stated fails. A successful answer whose only part is \<^verbatim>\<open>null\<close> has no
  part with inline data, yet the endpoint answers 500: reading \<^verbatim>\<open>part.inlineData\<close>
  throws, and the handler's \<^verbatim>\<open>catch\<close> clause reports a communication failure.
\<close>

theorem null_part_counterexample:
  "reply (gemini_image no_moderation_env (parse_known [] JNull)
      (providers unreachable (Inr (candidate [JNull])))
      [(''prompt'', JStr ''a cat astronaut'')]) =
   Json 500 (JObj [(''error'', JStr ''Failed to communicate with Gemini image API''),
                   (''details'', JStr ''Cannot read properties of null (reading 'inlineData')'')])
   \<and> find has_inline_data [JNull] = None"
  by (simp add: gemini_image_stages no_moderation_env_def request_prompt_cat
      moderate_skipped [unfolded no_moderation_env_def] providers_image_call
      generate_image_def first_candidate_parts_def candidate_def js_or_def
      image_failure_def cannot_read_def has_inline_data_def)


section \<open>Properties of the alternate chat endpoint\<close>

lemma parts_text_concat:
  "parts_text parts = Inr t \<Longrightarrow> t = concat (map part_text parts)"
  by (induction parts arbitrary: t) (auto split: if_splits sum.splits)

lemma parts_text_no_null:
  "\<forall>p \<in> set parts. \<not> is_nullish p \<Longrightarrow> parts_text parts = Inr (concat (map part_text parts))"
  by (induction parts) auto

lemma candidate_text_array:
  "candidate_text v = Inr t \<Longrightarrow> \<exists>parts. v = JArr parts \<and> t = concat (map part_text parts)"
  by (cases v) (auto dest: parts_text_concat)

lemma gemini_chat_relayed:
  "is_set (GEMINI_API_KEY e) \<Longrightarrow> \<not> no_messages (body_prop body ''messages'') \<Longrightarrow>
   contents (formatMessagesForGemini (body_prop body ''messages'')) \<noteq> [] \<Longrightarrow>
   gemini_chat e stringify post body =
     \<lparr>reply = relay_chat stringify post
        (chat_call (env_str (GEMINI_API_KEY e))
           (formatMessagesForGemini (body_prop body ''messages''))),
      upstream_calls =
        [chat_call (env_str (GEMINI_API_KEY e))
           (formatMessagesForGemini (body_prop body ''messages''))]\<rparr>"
  by (simp add: gemini_chat_def Let_def)

lemma relay_chat_stream:
  "relay_chat stringify post call = EventStream cs \<Longrightarrow>
   \<exists>data parts. post call = Inr data \<and> first_candidate_parts data = JArr parts
     \<and> cs = [''data: '' @ stringify (eventPayload (concat (map part_text parts)))
                @ [CHR 0x0A, CHR 0x0A],
             ''data: [DONE]'' @ [CHR 0x0A, CHR 0x0A]]"
  by (auto simp: relay_chat_def chat_failure_def synthesize_stream_def
      split: sum.splits dest!: candidate_text_array)

lemma part_text_cases:
  "part_text p = (case get_prop p ''text'' of JStr s \<Rightarrow> s | _ \<Rightarrow> [])"
  by (cases "get_prop p ''text''") (simp_all add: part_text_def)

lemma format_hi:
  "formatMessagesForGemini (JArr [user_turn ''hi'']) =
     \<lparr>contents = [JObj [(''role'', JStr ''user''), (''parts'', JArr [text_part ''hi''])]],
      systemInstruction = JNull\<rparr>"
  by (simp add: format_message_def user_turn_def trim_def is_js_space_def Let_def)

lemma providers_chat_call: "providers m g (chat_call k req) = g"
  by (simp add: providers_def chat_call_def)


subsection \<open>The synthesized stream\<close>

text \<open>
  Claim C6, as the code has it. When the provider answers a valid chat request and the
  parts of the first candidate are absent or form an array without \<^verbatim>\<open>null\<close> entries,
  the reply is a stream of exactly two chunks: the line \<^verbatim>\<open>data: \<close> followed by the
  JSON text of \<^verbatim>\<open>{choices:[{delta:{content:text}}]}\<close> and a blank line, where
  \<^verbatim>\<open>text\<close> is the concatenation, in order, of the \<^verbatim>\<open>text\<close> fields of the parts that
  are strings; then the line \<^verbatim>\<open>data: [DONE]\<close> and a blank line.
\<close>

theorem synthesized_stream_framing:
  assumes "is_set (GEMINI_API_KEY e)"
    and "\<not> no_messages (body_prop body ''messages'')"
    and "contents (formatMessagesForGemini (body_prop body ''messages'')) \<noteq> []"
    and "post (chat_call (env_str (GEMINI_API_KEY e))
             (formatMessagesForGemini (body_prop body ''messages''))) = Inr data"
    and "first_candidate_parts data = JArr parts"
    and "\<forall>p \<in> set parts. \<not> is_nullish p"
    and "t = concat (map (\<lambda>p. case get_prop p ''text'' of JStr s \<Rightarrow> s | _ \<Rightarrow> []) parts)"
  shows "reply (gemini_chat e stringify post body) =
     EventStream
       [''data: ''
          @ stringify (JObj [(''choices'', JArr [JObj [(''delta'', JObj [(''content'', JStr t)])]])])
          @ [CHR 0x0A, CHR 0x0A],
        ''data: [DONE]'' @ [CHR 0x0A, CHR 0x0A]]"
proof -
  have "concat (map part_text parts) = t"
    unfolding assms(7) by (simp add: part_text_cases [abs_def])
  with assms(1-5) parts_text_no_null [OF assms(6)] show ?thesis
    by (simp add: gemini_chat_relayed relay_chat_def synthesize_stream_def eventPayload_def)
qed

text \<open>
  Claim C6 at a concrete request: the parts \<^verbatim>\<open>Hel\<close>, an inline image and \<^verbatim>\<open>lo\<close>
  are relayed as the single event \<^verbatim>\<open>Hello\<close>.
\<close>

theorem synthesized_stream_framing_witness:
  "reply (gemini_chat example_env
      (stringify_known
         (JObj [(''choices'', JArr [JObj [(''delta'', JObj [(''content'', JStr ''Hello'')])]])])
         hello_json)
      (providers unreachable
         (Inr (candidate [JObj [(''text'', JStr ''Hel'')], inline_png ''iVBORw0KGgo='',
                          JObj [(''text'', JStr ''lo'')]])))
      [(''messages'', JArr [user_turn ''hi''])]) =
   EventStream [''data: '' @ hello_json @ [CHR 0x0A, CHR 0x0A],
                ''data: [DONE]'' @ [CHR 0x0A, CHR 0x0A]]"
proof -
  let ?parts = "[JObj [(''text'', JStr ''Hel'')], inline_png ''iVBORw0KGgo='',
                 JObj [(''text'', JStr ''lo'')]]"
  let ?post = "providers unreachable (Inr (candidate ?parts))"
  let ?body = "[(''messages'', JArr [user_turn ''hi''])]"
  let ?S = "stringify_known
     (JObj [(''choices'', JArr [JObj [(''delta'', JObj [(''content'', JStr ''Hello'')])]])])
     hello_json"
  have m: "body_prop ?body ''messages'' = JArr [user_turn ''hi'']"
    by (simp add: body_prop_def)
  have 1: "is_set (GEMINI_API_KEY example_env)"
    by (simp add: example_env_def)
  have 2: "\<not> no_messages (body_prop ?body ''messages'')"
    unfolding m by simp
  have 3: "contents (formatMessagesForGemini (body_prop ?body ''messages'')) \<noteq> []"
    unfolding m format_hi by simp
  have 4: "?post (chat_call (env_str (GEMINI_API_KEY example_env))
             (formatMessagesForGemini (body_prop ?body ''messages''))) = Inr (candidate ?parts)"
    by (rule providers_chat_call)
  have 5: "first_candidate_parts (candidate ?parts) = JArr ?parts"
    by (simp add: first_candidate_parts_def candidate_def js_or_def)
  have 6: "\<forall>p \<in> set ?parts. \<not> is_nullish p"
    by (simp add: inline_png_def)
  have 7: "''Hello'' =
     concat (map (\<lambda>p. case get_prop p ''text'' of JStr s \<Rightarrow> s | _ \<Rightarrow> []) ?parts)"
    by (simp add: inline_png_def)
  show ?thesis
    using synthesized_stream_framing
      [where post = ?post and stringify = ?S, OF 1 2 3 4 5 6 7]
    by (simp add: stringify_known_def)
qed

text \<open>
  Claim C6 as stated fails. The provider call succeeds with the parts \<^verbatim>\<open>Hel\<close> and
  \<^verbatim>\<open>null\<close>; reading \<^verbatim>\<open>part.text\<close> of the second throws, and the reply is the JSON
  error of the \<^verbatim>\<open>catch\<close> clause with status 500, not a stream.
\<close>

theorem null_text_part_counterexample:
  "providers unreachable (Inr (candidate [JObj [(''text'', JStr ''Hel'')], JNull]))
     (chat_call ''g-test'' (formatMessagesForGemini (JArr [user_turn ''hi''])))
     = Inr (candidate [JObj [(''text'', JStr ''Hel'')], JNull])
   \<and> reply (gemini_chat example_env
      (stringify_known
         (JObj [(''choices'', JArr [JObj [(''delta'', JObj [(''content'', JStr ''Hel'')])]])])
         hello_json)
      (providers unreachable (Inr (candidate [JObj [(''text'', JStr ''Hel'')], JNull])))
      [(''messages'', JArr [user_turn ''hi''])]) =
   Json 500 (JObj [(''error'', JStr ''Failed to communicate with Gemini chat API''),
                   (''details'', JStr ''Cannot read properties of null (reading 'text')'')])"
proof -
  let ?body = "[(''messages'', JArr [user_turn ''hi''])]"
  have m: "body_prop ?body ''messages'' = JArr [user_turn ''hi'']"
    by (simp add: body_prop_def)
  have 1: "is_set (GEMINI_API_KEY example_env)"
    by (simp add: example_env_def)
  have 2: "\<not> no_messages (body_prop ?body ''messages'')"
    unfolding m by simp
  have 3: "contents (formatMessagesForGemini (body_prop ?body ''messages'')) \<noteq> []"
    unfolding m format_hi by simp
  show ?thesis
    unfolding gemini_chat_relayed [OF 1 2 3]
    by (simp add: providers_chat_call relay_chat_def first_candidate_parts_def candidate_def
        js_or_def part_text_def chat_failure_def cannot_read_def)
qed

text \<open>Conversely, every stream the endpoint answers with comes from a provider answer
  and has this framing.\<close>

lemma stream_reply_readable:
  assumes "reply (gemini_chat e stringify post body) = EventStream cs"
  shows "\<exists>data parts.
     post (chat_call (env_str (GEMINI_API_KEY e))
             (formatMessagesForGemini (body_prop body ''messages''))) = Inr data
     \<and> first_candidate_parts data = JArr parts
     \<and> cs = [''data: ''
                @ stringify (JObj [(''choices'', JArr [JObj [(''delta'', JObj [(''content'',
                     JStr (concat (map part_text parts)))])]])])
                @ [CHR 0x0A, CHR 0x0A],
             ''data: [DONE]'' @ [CHR 0x0A, CHR 0x0A]]"
proof -
  from assms have "relay_chat stringify post
      (chat_call (env_str (GEMINI_API_KEY e))
         (formatMessagesForGemini (body_prop body ''messages''))) = EventStream cs"
    by (simp add: gemini_chat_def Let_def split: if_splits)
  then show ?thesis by (auto dest!: relay_chat_stream simp: eventPayload_def)
qed


subsection \<open>Conversations without a history turn\<close>

text \<open>
  Claim C8. When every turn of the list that is left after dropping the turns without
  text is a system turn, the translator gives no history entry, and the chat endpoint
  answers 400 without any upstream call: with \<^verbatim>\<open>No valid messages to send to Gemini.\<close>,
  or, when the list has no entry at all, with \<^verbatim>\<open>No messages provided for Gemini chat.\<close>
\<close>

theorem system_only_rejected:
  assumes "is_set (GEMINI_API_KEY e)"
    and "body_prop body ''messages'' = JArr messages"
    and "\<forall>m \<in> set messages. is_turn m \<longrightarrow> get_prop m ''role'' = JStr ''system''"
  shows "contents (formatMessagesForGemini (JArr messages)) = []
     \<and> gemini_chat e stringify post body =
         \<lparr>reply = Json 400
            (JObj [(''error'',
               JStr (if messages = [] then ''No messages provided for Gemini chat.''
                     else ''No valid messages to send to Gemini.''))]),
          upstream_calls = []\<rparr>"
proof -
  from assms(3) have "filter is_history_turn messages = []"
    by (auto simp: filter_empty_conv is_history_turn_def)
  then have c: "contents (formatMessagesForGemini (JArr messages)) = []"
    by (simp add: format_array del: formatMessagesForGemini.simps)
  have "no_messages (JArr messages) = (messages = [])"
    by (cases messages) simp_all
  with c assms(1,2) show ?thesis
    by (simp add: gemini_chat_def del: formatMessagesForGemini.simps)
qed

text \<open>
  Claim C8 at a concrete request: one system turn and one turn of white space.
\<close>

theorem system_only_rejected_witness:
  "contents (formatMessagesForGemini (JArr [system_turn ''be brief'', user_turn ''  ''])) = []
   \<and> gemini_chat example_env (stringify_known JNull []) (providers unreachable unreachable)
       [(''messages'', JArr [system_turn ''be brief'', user_turn ''  ''])] =
     \<lparr>reply = Json 400 (JObj [(''error'', JStr ''No valid messages to send to Gemini.'')]),
      upstream_calls = []\<rparr>"
proof -
  let ?msgs = "[system_turn ''be brief'', user_turn ''  '']"
  have 1: "is_set (GEMINI_API_KEY example_env)"
    by (simp add: example_env_def)
  have 2: "body_prop [(''messages'', JArr ?msgs)] ''messages'' = JArr ?msgs"
    by (simp add: body_prop_def)
  have 3: "\<forall>m \<in> set ?msgs. is_turn m \<longrightarrow> get_prop m ''role'' = JStr ''system''"
    by (simp add: is_turn_def system_turn_def user_turn_def trim_def is_js_space_def)
  show ?thesis
    using system_only_rejected [OF 1 2 3, of "stringify_known JNull []" "providers unreachable unreachable"]
    by simp
qed


section \<open>Missing credentials\<close>

text \<open>
  Claim C9. On each endpoint, when the credential of the provider that serves it is not
  set, the reply is 500 with a message that names the provider's key, and no upstream
  call is made: the primary chat endpoint for the chat provider, the text-to-speech
  endpoint for the speech provider, the image and the alternate chat endpoint for the
  image provider.
\<close>

theorem missing_credential_500:
  "(\<not> is_set (OPENAI_API_KEY e) \<longrightarrow>
      openai_chat e stream_post body =
        \<lparr>reply = Json 500
           (JObj [(''error'', JStr ''Server configuration error: OpenAI API key is missing.'')]),
         upstream_calls = []\<rparr>)
   \<and> (\<not> is_set (ELEVENLABS_API_KEY e) \<longrightarrow>
      elevenlabs_tts e parse decode binary_post body =
        \<lparr>reply = Json 500
           (JObj [(''error'',
                   JStr ''Server configuration error: ElevenLabs API key is missing.'')]),
         upstream_calls = []\<rparr>)
   \<and> (\<not> is_set (GEMINI_API_KEY e) \<longrightarrow>
      gemini_image e parse post body =
        \<lparr>reply = Json 500
           (JObj [(''error'', JStr ''Server configuration error: Gemini API key is missing.'')]),
         upstream_calls = []\<rparr>
      \<and> gemini_chat e stringify post body =
        \<lparr>reply = Json 500
           (JObj [(''error'', JStr ''Server configuration error: Gemini API key is missing.'')]),
         upstream_calls = []\<rparr>)"
  by (simp add: openai_chat_def elevenlabs_tts_def gemini_image_def gemini_chat_def Let_def)

text \<open>
  Claim C9 at concrete requests, in an environment with no credential at all and
  providers that would answer.
\<close>

theorem missing_credential_500_witness:
  "openai_chat empty_env (\<lambda>call. Inr \<lparr>chunks = [''data: [DONE]''], fails = False\<rparr>)
        [(''messages'', JArr [user_turn ''hi''])] =
        \<lparr>reply = Json 500
           (JObj [(''error'', JStr ''Server configuration error: OpenAI API key is missing.'')]),
         upstream_calls = []\<rparr>
   \<and> elevenlabs_tts empty_env (parse_known [] JNull) (\<lambda>b. b) (\<lambda>call. Inr ''ID3'')
        [(''text'', JStr ''hello'')] =
        \<lparr>reply = Json 500
           (JObj [(''error'',
                   JStr ''Server configuration error: ElevenLabs API key is missing.'')]),
         upstream_calls = []\<rparr>
   \<and> gemini_image empty_env (parse_known [] JNull)
        (providers unreachable (Inr (candidate [inline_png ''iVBORw0KGgo=''])))
        [(''prompt'', JStr ''a cat astronaut'')] =
        \<lparr>reply = Json 500
           (JObj [(''error'', JStr ''Server configuration error: Gemini API key is missing.'')]),
         upstream_calls = []\<rparr>
   \<and> gemini_chat empty_env (stringify_known JNull [])
        (providers unreachable (Inr (candidate [text_part ''Hello''])))
        [(''messages'', JArr [user_turn ''hi''])] =
        \<lparr>reply = Json 500
           (JObj [(''error'', JStr ''Server configuration error: Gemini API key is missing.'')]),
         upstream_calls = []\<rparr>"
proof -
  have 1: "\<not> is_set (OPENAI_API_KEY empty_env)" "\<not> is_set (ELEVENLABS_API_KEY empty_env)"
    "\<not> is_set (GEMINI_API_KEY empty_env)"
    by (simp_all add: empty_env_def)
  show ?thesis
    using 1 missing_credential_500 [where e = empty_env
        and stream_post = "\<lambda>call. Inr \<lparr>chunks = [''data: [DONE]''], fails = False\<rparr>"
        and body = "[(''messages'', JArr [user_turn ''hi''])]"
        and stringify = "stringify_known JNull []"
        and post = "providers unreachable (Inr (candidate [text_part ''Hello'']))"]
      missing_credential_500 [where e = empty_env
        and parse = "parse_known [] JNull" and decode = "\<lambda>b. b"
        and binary_post = "\<lambda>call. Inr ''ID3''"
        and body = "[(''text'', JStr ''hello'')]"]
      missing_credential_500 [where e = empty_env
        and parse = "parse_known [] JNull"
        and post = "providers unreachable (Inr (candidate [inline_png ''iVBORw0KGgo='']))"
        and body = "[(''prompt'', JStr ''a cat astronaut'')]"]
    by simp
qed

end
